theory Spec2Isabelle
  imports Complex_Main
begin

section \<open>Speed detector (detector\_speed.py)\<close>

text \<open>
  Python floats are modelled as \<^typ>\<open>real\<close>: rounding, infinities and NaN are outside the
  model. Counters are Python integers that start at 0 and are only incremented, hence
  \<^typ>\<open>nat\<close>.
\<close>

definition STABILIZATION_SPEED :: real where
  "STABILIZATION_SPEED = 8"

definition SPOOFING_SPEED_THRESHOLD :: real where
  "SPOOFING_SPEED_THRESHOLD = 6"

definition STABILIZATION_COUNT :: nat where
  "STABILIZATION_COUNT = 4"

definition DISTANCE_JUMP_THRESHOLD :: real where
  "DISTANCE_JUMP_THRESHOLD = 30"

lemmas speed_config =
  STABILIZATION_SPEED_def SPOOFING_SPEED_THRESHOLD_def STABILIZATION_COUNT_def
  DISTANCE_JUMP_THRESHOLD_def

type_synonym position = "real \<times> real"

text \<open>
  The two kinds of value the source stores in \<open>last_time\<close>: a \<open>datetime\<close> built by
  \<open>datetime.combine\<close> (seconds on an absolute axis) or the float of \<open>time.time()\<close>.
\<close>

datatype timeval = DateTime real | ClockFloat real

datatype py_error = TypeError | ValueError | ZeroDivisionError | ParseError

text \<open>
  A parsed GGA sentence. \<open>timestamp\<close> is the time of day in seconds; \<open>None\<close> is an
  empty time field, on which \<open>datetime.combine\<close> raises.
\<close>

record gga =
  gps_qual :: int
  latitude :: real
  longitude :: real
  timestamp :: "real option"

text \<open>
  \<open>Unparsable\<close> stands for every sentence on which \<open>pynmea2.parse\<close>, \<open>int(msg.gps_qual)\<close>
  or the coordinate accessors raise; all of them raise before any field is written.
\<close>

datatype nmea_line = Unparsable | GGA gga

text \<open>
  The clock readings one call may take: \<open>today\<close> is \<open>datetime.utcnow().date()\<close> as the
  seconds of its midnight, \<open>now\<close> is \<open>time.time()\<close>.
\<close>

record clock =
  today :: real
  now :: real

record SpeedDetector =
  last_position :: "position option"
  last_time :: "timeval option"
  stabilized :: bool
  stabilization_counter :: nat
  spoofing_phase :: bool
  spoofed_stabilization_counter :: nat
  spoof_confirmed :: bool

definition SpeedDetector_init :: SpeedDetector where
  "SpeedDetector_init =
     \<lparr> last_position = None, last_time = None, stabilized = False,
       stabilization_counter = 0, spoofing_phase = False,
       spoofed_stabilization_counter = 0, spoof_confirmed = False \<rparr>"

datatype speed_status =
  NO_FIX | STABILIZING | SPEED_ANOMALY | SPOOFING_ANALYSIS | SPOOFING_CONFIRMED | NORMAL | ERROR

type_synonym speed_result = "speed_status \<times> real option \<times> bool"

text \<open>Truth value of \<open>self.last_time\<close>: \<open>None\<close> and the float 0.0 are false.\<close>

fun truthy_time :: "timeval option \<Rightarrow> bool" where
  "truthy_time None = False"
| "truthy_time (Some (DateTime t)) = True"
| "truthy_time (Some (ClockFloat t)) = (t \<noteq> 0)"

text \<open>
  \<open>current_time - self.last_time\<close> in seconds: two datetimes give a timedelta, two floats a
  float, a mixed pair raises \<open>TypeError\<close>.
\<close>

fun sub_time :: "timeval \<Rightarrow> timeval \<Rightarrow> py_error + real" where
  "sub_time (DateTime a) (DateTime b) = Inr (a - b)"
| "sub_time (ClockFloat a) (ClockFloat b) = Inr (a - b)"
| "sub_time (DateTime a) (ClockFloat b) = Inl TypeError"
| "sub_time (ClockFloat a) (DateTime b) = Inl TypeError"

text \<open>\<open>(current_time - self.last_time) if self.last_time else 1\<close>\<close>

fun dt_of :: "timeval \<Rightarrow> timeval option \<Rightarrow> py_error + real" where
  "dt_of ct None = Inr 1"
| "dt_of ct (Some lt) = (if truthy_time (Some lt) then sub_time ct lt else Inr 1)"

text \<open>
  Lines 47--53: the inner \<open>try\<close> builds a datetime from the sentence's time and subtracts;
  on any exception the bare \<open>except\<close> reads the clock instead and subtracts again, and an
  exception there leaves the inner block (it reaches the outer handler).
\<close>

definition current_time_and_dt ::
  "timeval option \<Rightarrow> clock \<Rightarrow> real option \<Rightarrow> py_error + (timeval \<times> real)" where
  "current_time_and_dt lt clk ts =
     (let attempt =
            (case ts of
               None \<Rightarrow> Inl TypeError
             | Some tod \<Rightarrow>
                 (case dt_of (DateTime (today clk + tod)) lt of
                    Inl e \<Rightarrow> Inl e
                  | Inr d \<Rightarrow> Inr (DateTime (today clk + tod), d)))
      in case attempt of
           Inr r \<Rightarrow> Inr r
         | Inl _ \<Rightarrow>
             (case dt_of (ClockFloat (now clk)) lt of
                Inl e \<Rightarrow> Inl e
              | Inr d \<Rightarrow> Inr (ClockFloat (now clk), d)))"

text \<open>Python's \<open>/\<close> on floats raises on a zero divisor.\<close>

definition py_truediv :: "real \<Rightarrow> real \<Rightarrow> py_error + real" where
  "py_truediv a b = (if b = 0 then Inl ZeroDivisionError else Inr (a / b))"

text \<open>Line 60: \<open>speed = dist / dt if dt > 0 else 0\<close>\<close>

definition speed_of :: "real \<Rightarrow> real \<Rightarrow> py_error + real" where
  "speed_of distance dt = (if dt > 0 then py_truediv distance dt else Inr 0)"

text \<open>Lines 94--99: the fall-through path stores the current fix and answers NORMAL.\<close>

definition update_refs :: "SpeedDetector \<Rightarrow> position \<Rightarrow> timeval \<Rightarrow> speed_result \<times> SpeedDetector" where
  "update_refs s p t = ((NORMAL, None, False), s\<lparr>last_position := Some p, last_time := Some t\<rparr>)"

text \<open>Lines 63--92: the three phases, each of which returns without reaching line 94.\<close>

definition phases ::
  "SpeedDetector \<Rightarrow> real \<Rightarrow> real \<Rightarrow> (speed_result \<times> SpeedDetector) option" where
  "phases s distance speed =
     (if \<not> stabilized s then
        (if speed < STABILIZATION_SPEED then
           (let c = stabilization_counter s + 1 in
            Some ((STABILIZING, Some speed, False),
                  s\<lparr>stabilization_counter := c,
                    stabilized := (if c \<ge> STABILIZATION_COUNT then True else stabilized s)\<rparr>))
         else Some ((STABILIZING, Some speed, False), s))
      else if \<not> spoofing_phase s \<and> speed > SPOOFING_SPEED_THRESHOLD
              \<and> distance > DISTANCE_JUMP_THRESHOLD then
        Some ((SPEED_ANOMALY, Some speed, False), s\<lparr>spoofing_phase := True\<rparr>)
      else if spoofing_phase s \<and> \<not> spoof_confirmed s then
        (if speed < STABILIZATION_SPEED then
           (let c = spoofed_stabilization_counter s + 1 in
            if c \<ge> STABILIZATION_COUNT then
              Some ((SPOOFING_CONFIRMED, Some speed, True),
                    s\<lparr>spoofed_stabilization_counter := c, spoof_confirmed := True\<rparr>)
            else
              Some ((SPOOFING_ANALYSIS, Some speed, False),
                    s\<lparr>spoofed_stabilization_counter := c\<rparr>))
         else Some ((SPOOFING_ANALYSIS, Some speed, False), s))
      else None)"

text \<open>
  \<open>SpeedDetector.process\<close>. The geodesic distance is the library's (geopy); it is a
  parameter, \<open>None\<close> where the library raises. Every exception is caught by the outer
  handler, which answers ERROR; none of them occurs after a write to \<open>self\<close>.
\<close>

definition process ::
  "(position \<Rightarrow> position \<Rightarrow> real option) \<Rightarrow> SpeedDetector \<Rightarrow> clock \<Rightarrow> nmea_line
     \<Rightarrow> speed_result \<times> SpeedDetector" where
  "process geodesic s clk line =
     (case line of
        Unparsable \<Rightarrow> ((ERROR, None, False), s)
      | GGA msg \<Rightarrow>
          if gps_qual msg = 0 then ((NO_FIX, None, False), s)
          else
            (let current_position = (latitude msg, longitude msg) in
             case current_time_and_dt (last_time s) clk (timestamp msg) of
               Inl e \<Rightarrow> ((ERROR, None, False), s)
             | Inr (current_time, dt) \<Rightarrow>
                 (case last_position s of
                    None \<Rightarrow> update_refs s current_position current_time
                  | Some lp \<Rightarrow>
                      (case geodesic lp current_position of
                         None \<Rightarrow> ((ERROR, None, False), s)
                       | Some distance \<Rightarrow>
                           (case speed_of distance dt of
                              Inl e \<Rightarrow> ((ERROR, None, False), s)
                            | Inr speed \<Rightarrow>
                                (case phases s distance speed of
                                   Some r \<Rightarrow> r
                                 | None \<Rightarrow> update_refs s current_position current_time))))))"

text \<open>A run of the detector over a sequence of calls: the verdicts and the final state.\<close>

fun process_all ::
  "(position \<Rightarrow> position \<Rightarrow> real option) \<Rightarrow> SpeedDetector \<Rightarrow> (clock \<times> nmea_line) list
     \<Rightarrow> speed_result list \<times> SpeedDetector" where
  "process_all geodesic s [] = ([], s)"
| "process_all geodesic s ((clk, line) # rest) =
     (let (r, s') = process geodesic s clk line;
          (rs, s'') = process_all geodesic s' rest
      in (r # rs, s''))"

section \<open>SNR detector (detector\_snr.py)\<close>

definition SNR_JUMP_THRESHOLD :: real where
  "SNR_JUMP_THRESHOLD = 6"

definition NEW_PRNS_THRESHOLD :: nat where
  "NEW_PRNS_THRESHOLD = 4"

definition DISAPPEARED_PRNS_THRESHOLD :: nat where
  "DISAPPEARED_PRNS_THRESHOLD = 4"

definition ANOMALY_CONFIRMATION_COUNT :: nat where
  "ANOMALY_CONFIRMATION_COUNT = 2"

definition HISTORY_LENGTH :: nat where
  "HISTORY_LENGTH = 3"

definition INSTANT_SHOCK_THRESHOLD :: nat where
  "INSTANT_SHOCK_THRESHOLD = 5"

definition SNR_MIN_THRESHOLD :: real where
  "SNR_MIN_THRESHOLD = 23"

definition MIN_SAT_FOR_ANALYSIS :: nat where
  "MIN_SAT_FOR_ANALYSIS = 4"

text \<open>\<open>STABILIZATION_DURATION\<close> of detector\_snr.py (Final\_Map\_Project.py has its own).\<close>

definition STABILIZATION_DURATION_snr :: real where
  "STABILIZATION_DURATION_snr = 60"

lemmas snr_config =
  SNR_JUMP_THRESHOLD_def NEW_PRNS_THRESHOLD_def DISAPPEARED_PRNS_THRESHOLD_def
  ANOMALY_CONFIRMATION_COUNT_def HISTORY_LENGTH_def INSTANT_SHOCK_THRESHOLD_def
  SNR_MIN_THRESHOLD_def MIN_SAT_FOR_ANALYSIS_def STABILIZATION_DURATION_snr_def

text \<open>
  The \<open>snr_i\<close> attribute of a GSV sentence is a string: missing or empty (false in the
  test of line 88), a text \<open>float\<close> accepts, or a text on which \<open>float\<close> raises.
\<close>

datatype snr_field = SnrMissing | SnrNumber real | SnrGarbage

record slot =
  sv_prn_num :: "string option"
  snr :: snr_field

text \<open>
  \<open>NoGSV\<close>: the line fails the test of line 81 or \<open>pynmea2.parse\<close> raises. \<open>GSV\<close>: the four
  satellite slots of a parsed sentence, in order (a shorter list: attributes that do
  not exist, for which \<open>getattr\<close> answers \<open>None\<close>).
\<close>

datatype gsv_line = NoGSV | GSV "slot list"

type_synonym sats = "string \<rightharpoonup> real"

record SNRDetector =
  snr_history :: "string \<rightharpoonup> real list"
  previous_avg_sats :: sats
  anomaly_counter :: nat
  stabilization_start_time :: real
  all_sats :: sats
  filtered_sats :: sats

text \<open>The constructor; its argument is the reading of \<open>time.time()\<close> it stores.\<close>

definition SNRDetector_init :: "real \<Rightarrow> SNRDetector" where
  "SNRDetector_init t =
     \<lparr> snr_history = Map.empty, previous_avg_sats = Map.empty, anomaly_counter = 0,
       stabilization_start_time = t, all_sats = Map.empty, filtered_sats = Map.empty \<rparr>"

datatype snr_status = SNR_STABILIZING | INSUFFICIENT_SATS | SPOOFING_DETECTED | SNR_NORMAL

text \<open>
  The causes are formatted strings in the source; the model keeps what each one reports.
\<close>

datatype cause =
  NewSatellites "string set"
| DisappearedSatellites "string set"
| SnrJumps "(string \<times> real) set"
| InstantShock

type_synonym snr_result = "snr_status \<times> cause list \<times> bool"

text \<open>
  Lines 84--92, the loop over the slots, on the pair (\<open>all_sats\<close>, \<open>filtered_sats\<close>). A text
  that \<open>float\<close> rejects raises inside the \<open>try\<close>: the loop stops there and what earlier
  slots wrote stays.
\<close>

fun read_slots :: "slot list \<Rightarrow> sats \<times> sats \<Rightarrow> sats \<times> sats" where
  "read_slots [] af = af"
| "read_slots (sl # rest) (a, f) =
     (case sv_prn_num sl of
        None \<Rightarrow> read_slots rest (a, f)
      | Some prn \<Rightarrow>
          if prn = [] then read_slots rest (a, f)
          else
            (case snr sl of
               SnrMissing \<Rightarrow> read_slots rest (a, f)
             | SnrGarbage \<Rightarrow> (a, f)
             | SnrNumber snr_val \<Rightarrow>
                 read_slots rest
                   (a(prn \<mapsto> snr_val),
                    if snr_val \<ge> SNR_MIN_THRESHOLD then f(prn \<mapsto> snr_val) else f)))"

text \<open>Lines 79--94.\<close>

definition ingest :: "SNRDetector \<Rightarrow> gsv_line \<Rightarrow> SNRDetector" where
  "ingest s line =
     (case line of
        NoGSV \<Rightarrow> s
      | GSV slots \<Rightarrow>
          (let (a, f) = read_slots (take 4 slots) (all_sats s, filtered_sats s)
           in s\<lparr>all_sats := a, filtered_sats := f\<rparr>))"

text \<open>\<open>deque(maxlen=HISTORY_LENGTH).append\<close>: a full window drops its oldest sample.\<close>

definition deque_append :: "real list \<Rightarrow> real \<Rightarrow> real list" where
  "deque_append q v = (if length q \<ge> HISTORY_LENGTH then tl q @ [v] else q @ [v])"

definition update_snr_history :: "SNRDetector \<Rightarrow> sats \<Rightarrow> SNRDetector" where
  "update_snr_history s data =
     s\<lparr>snr_history :=
         (\<lambda>prn. case data prn of
                  None \<Rightarrow> snr_history s prn
                | Some v \<Rightarrow>
                    Some (deque_append (case snr_history s prn of None \<Rightarrow> [] | Some q \<Rightarrow> q) v))\<rparr>"

text \<open>Lines 61--64: the jump of one PRN present in both states, when it counts.\<close>

definition snr_jump :: "sats \<Rightarrow> sats \<Rightarrow> string \<Rightarrow> real option" where
  "snr_jump prev cur prn =
     (case (cur prn, prev prn) of
        (Some c, Some p) \<Rightarrow>
          if \<bar>c - p\<bar> \<ge> max SNR_JUMP_THRESHOLD (0.25 * p) then Some \<bar>c - p\<bar> else None
      | _ \<Rightarrow> None)"

text \<open>
  \<open>compare_sat_data\<close>. \<open>len\<close> of a set is \<open>card\<close>; the dictionaries of the program are
  finite.
\<close>

definition compare_sat_data :: "sats \<Rightarrow> sats \<Rightarrow> cause list \<times> bool" where
  "compare_sat_data prev cur =
     (let new = dom cur - dom prev;
          lost = dom prev - dom cur;
          snr_jumps = (\<lambda>prn. (prn, the (snr_jump prev cur prn)))
                        ` Set.filter (\<lambda>prn. snr_jump prev cur prn \<noteq> None) (dom cur \<inter> dom prev);
          spoof_now = (card new \<ge> INSTANT_SHOCK_THRESHOLD \<and> card lost \<ge> INSTANT_SHOCK_THRESHOLD)
      in ((if card new \<ge> NEW_PRNS_THRESHOLD then [NewSatellites new] else [])
          @ (if card lost \<ge> DISAPPEARED_PRNS_THRESHOLD then [DisappearedSatellites lost] else [])
          @ (if snr_jumps \<noteq> {} then [SnrJumps snr_jumps] else [])
          @ (if spoof_now then [InstantShock] else []),
          spoof_now))"

text \<open>
  \<open>process_gsv_for_snr\<close>; the second argument is the reading of \<open>time.time()\<close> at line 97.
  The averaged view of line 107 is computed and dropped, and writes nothing.
\<close>

definition process_gsv_for_snr :: "SNRDetector \<Rightarrow> real \<Rightarrow> gsv_line \<Rightarrow> snr_result \<times> SNRDetector" where
  "process_gsv_for_snr s0 t line =
     (let s = ingest s0 line;
          elapsed = t - stabilization_start_time s
      in if elapsed < STABILIZATION_DURATION_snr then ((SNR_STABILIZING, [], False), s)
         else if card (dom (filtered_sats s)) < MIN_SAT_FOR_ANALYSIS then
           ((INSUFFICIENT_SATS, [], False), s)
         else
           (let s1 = update_snr_history s (all_sats s) in
            if previous_avg_sats s1 \<noteq> Map.empty then
              (let (causes, spoof_now) = compare_sat_data (previous_avg_sats s1) (filtered_sats s1);
                   s2 = s1\<lparr>anomaly_counter := (if causes \<noteq> [] then anomaly_counter s1 + 1 else 0)\<rparr>
               in if anomaly_counter s2 \<ge> ANOMALY_CONFIRMATION_COUNT \<or> spoof_now then
                    ((SPOOFING_DETECTED, causes, True), s2\<lparr>previous_avg_sats := filtered_sats s2\<rparr>)
                  else ((SNR_NORMAL, [], False), s2\<lparr>previous_avg_sats := filtered_sats s2\<rparr>))
            else ((SNR_NORMAL, [], False), s1\<lparr>previous_avg_sats := filtered_sats s1\<rparr>)))"

text \<open>The detector after a sequence of calls, each with its clock reading.\<close>

fun snr_run :: "SNRDetector \<Rightarrow> (real \<times> gsv_line) list \<Rightarrow> SNRDetector" where
  "snr_run s [] = s"
| "snr_run s ((t, line) # rest) = snr_run (snd (process_gsv_for_snr s t line)) rest"

section \<open>Arbitration loop (Final\_Map\_Project.py, \<open>gps_reader\<close>)\<close>

text \<open>\<open>STABILIZATION_DURATION\<close> of Final\_Map\_Project.py: the startup grace period.\<close>

definition STABILIZATION_DURATION_main :: real where
  "STABILIZATION_DURATION_main = 30"

text \<open>
  The module's globals the loop reads and writes. \<open>autonomous_mode\<close> is the mode flag:
  \<open>False\<close> is tracking, \<open>True\<close> is the autonomous fallback. The map-matching block (lines
  258--305) reads and writes only the display buffer, the last displayed coordinate and
  the road network, and its exceptions are caught by its own handler; it is left out.
\<close>

record controller =
  snr_detector :: SNRDetector
  speed_detector :: SpeedDetector
  autonomous_mode :: bool
  start_time :: real

definition controller_init :: "real \<Rightarrow> real \<Rightarrow> controller" where
  "controller_init t_snr t_start =
     \<lparr> snr_detector = SNRDetector_init t_snr, speed_detector = SpeedDetector_init,
       autonomous_mode = False, start_time = t_start \<rparr>"

text \<open>
  What the tests of lines 247 and 308 make of a line read from the port, with the
  clock readings taken while it is handled: by the detector, then by the loop
  (lines 252 and 313). \<open>alert_raises\<close>: whether \<open>socketio.emit('alert')\<close> would raise.
\<close>

datatype sentence = GGA_sentence nmea_line | GSV_sentence gsv_line | Other_sentence

record reading =
  received :: sentence
  detector_clock :: clock
  arbiter_clock :: real
  alert_raises :: bool

text \<open>\<open>ReadFailure\<close>: the port raises; the handler of line 321 ends the loop.\<close>

datatype event = ReadFailure | Received reading

text \<open>
  Lines 251--256 and 312--319: the switch, and whether the function returns. The alert
  is emitted before the flag is written: if it raises, the handler of line 321 ends the
  loop with the flag as it was.
\<close>

definition arbitrate :: "controller \<Rightarrow> bool \<Rightarrow> real \<Rightarrow> bool \<Rightarrow> controller \<times> bool" where
  "arbitrate c spoof t raises =
     (if spoof \<and> \<not> autonomous_mode c then
        (if t - start_time c > STABILIZATION_DURATION_main then
           (if raises then (c, True) else (c\<lparr>autonomous_mode := True\<rparr>, True))
         else (c, False))
      else (c, False))"

text \<open>One iteration of the \<open>while True\<close> loop: the new globals and whether it returned.\<close>

definition gps_step ::
  "(position \<Rightarrow> position \<Rightarrow> real option) \<Rightarrow> controller \<Rightarrow> event \<Rightarrow> controller \<times> bool" where
  "gps_step geodesic c ev =
     (case ev of
        ReadFailure \<Rightarrow> (c, True)
      | Received r \<Rightarrow>
          (case received r of
             GGA_sentence line \<Rightarrow>
               (let ((status, speed, spoof), sd) =
                      process geodesic (speed_detector c) (detector_clock r) line
                in arbitrate (c\<lparr>speed_detector := sd\<rparr>) spoof (arbiter_clock r) (alert_raises r))
           | GSV_sentence line \<Rightarrow>
               (let ((status, causes, spoof), sn) =
                      process_gsv_for_snr (snr_detector c) (now (detector_clock r)) line
                in arbitrate (c\<lparr>snr_detector := sn\<rparr>) spoof (arbiter_clock r) (alert_raises r))
           | Other_sentence \<Rightarrow> (c, False)))"

text \<open>
  The loop over the lines the port delivers: the globals after each iteration, up to the
  iteration that returns.
\<close>

fun gps_reader ::
  "(position \<Rightarrow> position \<Rightarrow> real option) \<Rightarrow> controller \<Rightarrow> event list \<Rightarrow> controller list" where
  "gps_reader geodesic c [] = []"
| "gps_reader geodesic c (ev # evs) =
     (let (c', returned) = gps_step geodesic c ev
      in c' # (if returned then [] else gps_reader geodesic c' evs))"

section \<open>Example inputs\<close>

text \<open>
  A run that reaches the confirmation, on a line where the distance between two fixes
  is the difference of their latitudes: a first fix, four slow fixes (stabilization),
  a jump of 100 in one second, and four fixes that stay there (confirmation at the
  fourth).
\<close>

definition line_distance :: "position \<Rightarrow> position \<Rightarrow> real option" where
  "line_distance p q = Some \<bar>fst q - fst p\<bar>"

definition fix_at :: "real \<Rightarrow> real \<Rightarrow> clock \<times> nmea_line" where
  "fix_at x t =
     (\<lparr>today = 0, now = 0\<rparr>,
      GGA \<lparr>gps_qual = 1, latitude = x, longitude = 0, timestamp = Some t\<rparr>)"

definition jump_and_hold :: "(clock \<times> nmea_line) list" where
  "jump_and_hold =
     [fix_at 0 0, fix_at 1 1, fix_at 1 2, fix_at 1 3, fix_at 1 4,
      fix_at 100 5, fix_at 100 20, fix_at 100 21, fix_at 100 22, fix_at 100 23]"

definition confirmed_state :: SpeedDetector where
  "confirmed_state =
     \<lparr> last_position = Some (0, 0), last_time = Some (DateTime 0), stabilized = True,
       stabilization_counter = 4, spoofing_phase = True,
       spoofed_stabilization_counter = 4, spoof_confirmed = True \<rparr>"

text \<open>
  Inputs for the examples: a slot with a PRN and a numeric SNR, and satellite maps with
  every SNR at 40.
\<close>

definition sat :: "string \<Rightarrow> real \<Rightarrow> slot" where
  "sat p v = \<lparr>sv_prn_num = Some p, snr = SnrNumber v\<rparr>"

definition four :: sats where
  "four = [''01'' \<mapsto> 40, ''02'' \<mapsto> 40, ''03'' \<mapsto> 40, ''04'' \<mapsto> 40]"

definition five :: sats where
  "five = four(''05'' \<mapsto> 40)"

definition nine :: sats where
  "nine = five(''06'' \<mapsto> 40, ''07'' \<mapsto> 40, ''08'' \<mapsto> 40, ''09'' \<mapsto> 40)"

definition ten :: sats where
  "ten = nine(''10'' \<mapsto> 40)"

text \<open>
  A constellation replaced wholesale after the warm-up: PRNs 01 to 05 are reported
  (sentences A and B), then only PRNs 06 to 10 (sentences C and D).
\<close>

definition sentence_A :: gsv_line where
  "sentence_A = GSV [sat ''01'' 40, sat ''02'' 40, sat ''03'' 40, sat ''04'' 40]"

definition sentence_B :: gsv_line where
  "sentence_B = GSV [sat ''05'' 40]"

definition sentence_C :: gsv_line where
  "sentence_C = GSV [sat ''06'' 40, sat ''07'' 40, sat ''08'' 40, sat ''09'' 40]"

definition sentence_D :: gsv_line where
  "sentence_D = GSV [sat ''10'' 40]"

text \<open>
  The jump-and-hold run as the loop receives it, every line handled when the loop's
  clock reads \<open>t\<close>.
\<close>

definition jump_events :: "real \<Rightarrow> event list" where
  "jump_events t =
     map (\<lambda>(clk, line).
            Received \<lparr>received = GGA_sentence line, detector_clock = clk, arbiter_clock = t,
                      alert_raises = False\<rparr>)
         jump_and_hold"

text \<open>The speed detector one slow fix away from its confirmation.\<close>

definition almost_confirmed :: SpeedDetector where
  "almost_confirmed = confirmed_state\<lparr>spoofed_stabilization_counter := 3, spoof_confirmed := False\<rparr>"

definition last_reading :: "real \<Rightarrow> reading" where
  "last_reading t =
     \<lparr>received = GGA_sentence (snd (fix_at 100 23)), detector_clock = fst (fix_at 100 23),
      arbiter_clock = t, alert_raises = False\<rparr>"

section \<open>Properties of the speed detector\<close>

lemma process_no_fix:
  "gps_qual msg = 0 \<Longrightarrow> process geodesic s clk (GGA msg) = ((NO_FIX, None, False), s)"
  by (simp add: process_def)

text \<open>
  C7. A fix whose quality code is 0 is answered NO FIX and leaves every field of the
  detector as it was; over a sequence made only of such fixes every verdict is NO FIX and
  the final state, its reference position and time included, is the initial one.
\<close>

theorem C7_no_fix_frame:
  "(gps_qual msg = 0 \<longrightarrow> process geodesic s clk (GGA msg) = ((NO_FIX, None, False), s))
   \<and> ((\<forall>(clk, line) \<in> set calls. \<exists>m. line = GGA m \<and> gps_qual m = 0) \<longrightarrow>
        process_all geodesic s calls = (replicate (length calls) (NO_FIX, None, False), s))"
proof
  show "gps_qual msg = 0 \<longrightarrow> process geodesic s clk (GGA msg) = ((NO_FIX, None, False), s)"
    by (simp add: process_no_fix)
next
  show "(\<forall>(clk, line) \<in> set calls. \<exists>m. line = GGA m \<and> gps_qual m = 0) \<longrightarrow>
        process_all geodesic s calls = (replicate (length calls) (NO_FIX, None, False), s)"
  proof (induction calls)
    case Nil
    show ?case by simp
  next
    case (Cons c calls)
    show ?case
    proof
      assume a: "\<forall>(clk, line) \<in> set (c # calls). \<exists>m. line = GGA m \<and> gps_qual m = 0"
      obtain clk line where c: "c = (clk, line)" by (cases c)
      from a c obtain m where m: "line = GGA m" "gps_qual m = 0" by auto
      from a have "\<forall>(clk, line) \<in> set calls. \<exists>m. line = GGA m \<and> gps_qual m = 0" by simp
      with Cons.IH have "process_all geodesic s calls
          = (replicate (length calls) (NO_FIX, None, False), s)" by blast
      then show "process_all geodesic s (c # calls)
          = (replicate (length (c # calls)) (NO_FIX, None, False), s)"
        using c m by (simp add: process_no_fix)
    qed
  qed
qed

theorem C7_no_fix_frame_witness:
  "gps_qual \<lparr>gps_qual = 0, latitude = 48, longitude = 2, timestamp = Some 5\<rparr> = 0
   \<and> process (\<lambda>p q. Some 0)
         (SpeedDetector_init\<lparr>last_position := Some (1, 1), last_time := Some (DateTime 3)\<rparr>)
         \<lparr>today = 0, now = 0\<rparr>
         (GGA \<lparr>gps_qual = 0, latitude = 48, longitude = 2, timestamp = Some 5\<rparr>)
       = ((NO_FIX, None, False),
          SpeedDetector_init\<lparr>last_position := Some (1, 1), last_time := Some (DateTime 3)\<rparr>)
   \<and> process_all (\<lambda>p q. Some 0)
         (SpeedDetector_init\<lparr>last_position := Some (1, 1), last_time := Some (DateTime 3)\<rparr>)
         [(\<lparr>today = 0, now = 0\<rparr>,
           GGA \<lparr>gps_qual = 0, latitude = 48, longitude = 2, timestamp = Some 5\<rparr>),
          (\<lparr>today = 0, now = 1\<rparr>,
           GGA \<lparr>gps_qual = 0, latitude = 49, longitude = 3, timestamp = None\<rparr>)]
       = ([(NO_FIX, None, False), (NO_FIX, None, False)],
          SpeedDetector_init\<lparr>last_position := Some (1, 1), last_time := Some (DateTime 3)\<rparr>)"
  using C7_no_fix_frame
    [where msg = "\<lparr>gps_qual = 0, latitude = 48, longitude = 2, timestamp = Some 5\<rparr>"
       and geodesic = "\<lambda>p q. Some 0"
       and s = "SpeedDetector_init\<lparr>last_position := Some (1, 1), last_time := Some (DateTime 3)\<rparr>"
       and clk = "\<lparr>today = 0, now = 0\<rparr>"
       and calls = "[(\<lparr>today = 0, now = 0\<rparr>,
           GGA \<lparr>gps_qual = 0, latitude = 48, longitude = 2, timestamp = Some 5\<rparr>),
          (\<lparr>today = 0, now = 1\<rparr>,
           GGA \<lparr>gps_qual = 0, latitude = 49, longitude = 3, timestamp = None\<rparr>)]"]
  by (simp del: process_all.simps)

section \<open>Reference fix of the speed detector\<close>

lemmas speed_defs = process_def update_refs_def phases_def Let_def

text \<open>
  C1, evaluated on the code. After a first fix at (0, 0) has been stored, a second fix of
  quality 1 at (1, 1), ten seconds later and five metres away, is answered STABILIZING,
  and the stored reference is still the first fix: neither the position (1, 1) nor the
  time of the second fix has been stored, where the claim has the current fix replace
  the reference whatever the verdict.
\<close>

theorem C1_reference_held_on_phase_verdict:
  "process (\<lambda>p q. Some 5) SpeedDetector_init \<lparr>today = 0, now = 0\<rparr>
       (GGA \<lparr>gps_qual = 1, latitude = 0, longitude = 0, timestamp = Some 0\<rparr>)
     = ((NORMAL, None, False),
        SpeedDetector_init\<lparr>last_position := Some (0, 0), last_time := Some (DateTime 0)\<rparr>)
   \<and> fst (process (\<lambda>p q. Some 5)
            (SpeedDetector_init\<lparr>last_position := Some (0, 0), last_time := Some (DateTime 0)\<rparr>)
            \<lparr>today = 0, now = 0\<rparr>
            (GGA \<lparr>gps_qual = 1, latitude = 1, longitude = 1, timestamp = Some 10\<rparr>))
     = (STABILIZING, Some (1 / 2), False)
   \<and> last_position (snd (process (\<lambda>p q. Some 5)
            (SpeedDetector_init\<lparr>last_position := Some (0, 0), last_time := Some (DateTime 0)\<rparr>)
            \<lparr>today = 0, now = 0\<rparr>
            (GGA \<lparr>gps_qual = 1, latitude = 1, longitude = 1, timestamp = Some 10\<rparr>)))
     \<noteq> Some (1, 1)
   \<and> last_time (snd (process (\<lambda>p q. Some 5)
            (SpeedDetector_init\<lparr>last_position := Some (0, 0), last_time := Some (DateTime 0)\<rparr>)
            \<lparr>today = 0, now = 0\<rparr>
            (GGA \<lparr>gps_qual = 1, latitude = 1, longitude = 1, timestamp = Some 10\<rparr>)))
     \<noteq> Some (DateTime 10)"
  by (simp add: process_def SpeedDetector_init_def current_time_and_dt_def update_refs_def
        phases_def speed_of_def py_truediv_def speed_config)

section \<open>Elapsed time and speed\<close>

lemma speed_of_total: "speed_of d dt = Inr (if dt > 0 then d / dt else 0)"
  by (simp add: speed_of_def py_truediv_def)

lemma dt_without_reference:
  "\<not> truthy_time lt \<Longrightarrow> \<exists>ct. current_time_and_dt lt clk ts = Inr (ct, 1)"
  apply (cases lt)
   apply (cases ts; simp add: current_time_and_dt_def)
  subgoal for a by (cases a; cases ts; simp add: current_time_and_dt_def)
  done

lemma dt_datetimes:
  "current_time_and_dt (Some (DateTime t)) clk (Some tod)
     = Inr (DateTime (today clk + tod), today clk + tod - t)"
  by (simp add: current_time_and_dt_def)

lemma dt_clock_floats:
  "u \<noteq> 0 \<Longrightarrow> current_time_and_dt (Some (ClockFloat u)) clk ts
                = Inr (ClockFloat (now clk), now clk - u)"
  by (cases ts) (simp_all add: current_time_and_dt_def)

lemma process_speed_value:
  assumes "gps_qual msg \<noteq> 0"
      and "last_position s = Some lp"
      and "current_time_and_dt (last_time s) clk (timestamp msg) = Inr (ct, dt)"
      and "geodesic lp (latitude msg, longitude msg) = Some d"
      and "process geodesic s clk (GGA msg) = ((v, val, det), s')"
      and "v \<noteq> NORMAL"
  shows "val = Some (if dt > 0 then d / dt else 0)"
  using assms
  by (auto simp: speed_defs speed_of_total split: if_splits option.splits)

text \<open>
  C8, as the spec states it, fails in its first half. With the reference stored at time
  100 and a fix stamped 50 (the two timestamps are out of order) the elapsed time is
  -50, not 1; the speed over 200 metres is then 0, where an elapsed time of 1 would
  have given 200.
\<close>

theorem C8_counterexample:
  "current_time_and_dt (Some (DateTime 100)) \<lparr>today = 0, now = 0\<rparr> (Some 50)
     = Inr (DateTime 50, - 50)
   \<and> fst (process (\<lambda>p q. Some 200)
            (SpeedDetector_init\<lparr>last_position := Some (0, 0), last_time := Some (DateTime 100)\<rparr>)
            \<lparr>today = 0, now = 0\<rparr>
            (GGA \<lparr>gps_qual = 1, latitude = 1, longitude = 1, timestamp = Some 50\<rparr>))
     = (STABILIZING, Some 0, False)"
  by (simp add: process_def SpeedDetector_init_def current_time_and_dt_def update_refs_def
        phases_def speed_of_def py_truediv_def speed_config)

text \<open>
  C8, amended. The elapsed time is 1 when no reference time is stored. With a stored
  reference datetime and a fix that carries a time it is the fix's datetime minus the
  reference, and with a stored clock reading it is the current clock reading minus the
  stored one, whatever their order (zero or negative when they are out of order). The
  speed never divides by zero: it is the distance over the elapsed time when that is
  positive and 0 otherwise, and this is the value every verdict other than NORMAL
  reports.
\<close>

theorem C8_elapsed_time_and_speed:
  "(\<not> truthy_time lt \<longrightarrow> (\<exists>ct. current_time_and_dt lt clk ts = Inr (ct, 1)))
   \<and> current_time_and_dt (Some (DateTime t)) clk (Some tod)
       = Inr (DateTime (today clk + tod), today clk + tod - t)
   \<and> (u \<noteq> 0 \<longrightarrow> current_time_and_dt (Some (ClockFloat u)) clk ts'
                = Inr (ClockFloat (now clk), now clk - u))
   \<and> speed_of d dt = Inr (if dt > 0 then d / dt else 0)
   \<and> (gps_qual msg \<noteq> 0 \<and> last_position s = Some lp
        \<and> current_time_and_dt (last_time s) clk (timestamp msg) = Inr (ct', dt')
        \<and> geodesic lp (latitude msg, longitude msg) = Some d'
        \<and> process geodesic s clk (GGA msg) = ((v, val, det), s') \<and> v \<noteq> NORMAL
        \<longrightarrow> val = Some (if dt' > 0 then d' / dt' else 0))"
  using dt_without_reference [of lt clk ts] dt_datetimes [of t clk tod] speed_of_total [of d dt]
    dt_clock_floats [of u clk ts']
    process_speed_value [of msg s lp clk ct' dt' geodesic d' v val det s']
  by blast

theorem C8_elapsed_time_and_speed_witness:
  "\<not> truthy_time None
   \<and> (\<exists>ct. current_time_and_dt None \<lparr>today = 0, now = 7\<rparr> (Some 50) = Inr (ct, 1))
   \<and> current_time_and_dt (Some (DateTime 100)) \<lparr>today = 0, now = 7\<rparr> (Some 50)
       = Inr (DateTime 50, - 50)
   \<and> current_time_and_dt (Some (ClockFloat 9)) \<lparr>today = 0, now = 7\<rparr> None
       = Inr (ClockFloat 7, - 2)
   \<and> speed_of 200 (- 50) = Inr 0
   \<and> process (\<lambda>p q. Some 200)
        (SpeedDetector_init\<lparr>last_position := Some (0, 0), last_time := Some (DateTime 100)\<rparr>)
        \<lparr>today = 0, now = 7\<rparr>
        (GGA \<lparr>gps_qual = 1, latitude = 1, longitude = 1, timestamp = Some 50\<rparr>)
      = ((STABILIZING, Some 0, False),
         SpeedDetector_init\<lparr>last_position := Some (0, 0), last_time := Some (DateTime 100),
           stabilization_counter := 1\<rparr>)"
proof -
  let ?s = "SpeedDetector_init\<lparr>last_position := Some (0, 0), last_time := Some (DateTime 100)\<rparr>"
  let ?clk = "\<lparr>today = 0, now = 7\<rparr>"
  let ?msg = "\<lparr>gps_qual = 1, latitude = 1, longitude = 1, timestamp = Some 50\<rparr>"
  let ?s' = "SpeedDetector_init\<lparr>last_position := Some (0, 0), last_time := Some (DateTime 100),
           stabilization_counter := 1\<rparr>"
  have p: "process (\<lambda>p q. Some 200) ?s ?clk (GGA ?msg) = ((STABILIZING, Some 0, False), ?s')"
    by (simp add: process_def SpeedDetector_init_def current_time_and_dt_def update_refs_def
          phases_def speed_of_def py_truediv_def speed_config)
  have c: "current_time_and_dt (last_time ?s) ?clk (timestamp ?msg) = Inr (DateTime 50, - 50)"
    by (simp add: current_time_and_dt_def)
  from C8_elapsed_time_and_speed
    [where lt = None and clk = ?clk and ts = "Some 50" and t = 100 and tod = 50
       and u = 9 and ts' = None and d = 200 and dt = "- 50" and msg = ?msg and s = ?s and lp = "(0, 0)"
       and ct' = "DateTime 50" and dt' = "- 50" and geodesic = "\<lambda>p q. Some 200"
       and d' = 200 and v = STABILIZING and val = "Some 0" and det = False and s' = ?s']
    p c
  show ?thesis by simp
qed

section \<open>Confirmation happens once\<close>

















section \<open>The filtered satellites of the SNR detector\<close>

lemma read_slots_dom:
  "read_slots slots (a, f) = (a', f') \<Longrightarrow> dom a \<subseteq> dom a' \<and> dom f \<subseteq> dom f'"
proof (induction slots arbitrary: a f)
  case Nil
  then show ?case by simp
next
  case (Cons sl slots)
  show ?case
  proof (cases "sv_prn_num sl")
    case None
    with Cons show ?thesis by simp
  next
    case (Some prn)
    show ?thesis
    proof (cases "prn = []")
      case True
      with Some Cons show ?thesis by simp
    next
      case False
      show ?thesis
      proof (cases "snr sl")
        case SnrMissing
        with Some False Cons show ?thesis by simp
      next
        case SnrGarbage
        with Some False Cons.prems show ?thesis by simp
      next
        case (SnrNumber v)
        let ?a = "a(prn \<mapsto> v)"
        let ?f = "if v \<ge> SNR_MIN_THRESHOLD then f(prn \<mapsto> v) else f"
        from SnrNumber Some False Cons.prems
        have "read_slots slots (?a, ?f) = (a', f')" by simp
        from Cons.IH [OF this] have "dom ?a \<subseteq> dom a'" "dom ?f \<subseteq> dom f'" by blast+
        moreover have "dom a \<subseteq> dom ?a" "dom f \<subseteq> dom ?f" by auto
        ultimately show ?thesis by blast
      qed
    qed
  qed
qed

lemma read_slots_below_floor:
  "\<forall>sl \<in> set slots. sv_prn_num sl = Some p \<longrightarrow> (\<forall>v. snr sl = SnrNumber v \<longrightarrow> v < SNR_MIN_THRESHOLD)
     \<Longrightarrow> snd (read_slots slots (a, f)) p = f p"
proof (induction slots arbitrary: a f)
  case Nil
  then show ?case by simp
next
  case (Cons sl slots)
  from Cons.prems have rest:
    "\<forall>sl \<in> set slots. sv_prn_num sl = Some p \<longrightarrow> (\<forall>v. snr sl = SnrNumber v \<longrightarrow> v < SNR_MIN_THRESHOLD)"
    by simp
  note ih = Cons.IH [OF rest]
  show ?case
  proof (cases "sv_prn_num sl")
    case None
    with ih show ?thesis by simp
  next
    case (Some prn)
    show ?thesis
    proof (cases "snr sl")
      case SnrMissing
      with Some ih show ?thesis by simp
    next
      case SnrGarbage
      with Some ih show ?thesis by simp
    next
      case (SnrNumber v)
      show ?thesis
      proof (cases "prn = p")
        case True
        with Some SnrNumber Cons.prems have "v < SNR_MIN_THRESHOLD" by simp
        with Some SnrNumber ih show ?thesis by simp
      next
        case False
        have "snd (read_slots slots (a(prn \<mapsto> v), f(prn \<mapsto> v))) p = (f(prn \<mapsto> v)) p"
          by (rule ih)
        with False have 1: "snd (read_slots slots (a(prn \<mapsto> v), f(prn \<mapsto> v))) p = f p"
          by simp
        have 2: "snd (read_slots slots (a(prn \<mapsto> v), f)) p = f p" by (rule ih)
        have 3: "snd (read_slots slots (a, f)) p = f p" by (rule ih)
        from Some SnrNumber 1 2 3 show ?thesis by simp
      qed
    qed
  qed
qed

lemma ingest_frame:
  "previous_avg_sats (ingest s line) = previous_avg_sats s"
  "snr_history (ingest s line) = snr_history s"
  "anomaly_counter (ingest s line) = anomaly_counter s"
  "stabilization_start_time (ingest s line) = stabilization_start_time s"
  by (auto simp: ingest_def split: gsv_line.splits prod.splits)

lemma ingest_dom: "dom (filtered_sats s) \<subseteq> dom (filtered_sats (ingest s line))"
proof (cases line)
  case NoGSV
  then show ?thesis by (simp add: ingest_def)
next
  case (GSV slots)
  obtain a f where r: "read_slots (take 4 slots) (all_sats s, filtered_sats s) = (a, f)"
    by (metis prod.exhaust)
  from read_slots_dom [OF r] GSV r show ?thesis by (simp add: ingest_def)
qed

lemma ingest_below_floor:
  assumes "\<forall>sl \<in> set slots. sv_prn_num sl = Some p
             \<longrightarrow> (\<forall>v. snr sl = SnrNumber v \<longrightarrow> v < SNR_MIN_THRESHOLD)"
  shows "filtered_sats (ingest s (GSV slots)) p = filtered_sats s p"
proof -
  from assms have
    "\<forall>sl \<in> set (take 4 slots). sv_prn_num sl = Some p
       \<longrightarrow> (\<forall>v. snr sl = SnrNumber v \<longrightarrow> v < SNR_MIN_THRESHOLD)"
    by (meson in_set_takeD)
  then have "snd (read_slots (take 4 slots) (all_sats s, filtered_sats s)) p = filtered_sats s p"
    by (rule read_slots_below_floor)
  moreover obtain a f where "read_slots (take 4 slots) (all_sats s, filtered_sats s) = (a, f)"
    by (metis prod.exhaust)
  ultimately show ?thesis by (simp add: ingest_def)
qed

lemma update_snr_history_frame:
  "previous_avg_sats (update_snr_history s d) = previous_avg_sats s"
  "filtered_sats (update_snr_history s d) = filtered_sats s"
  "all_sats (update_snr_history s d) = all_sats s"
  "anomaly_counter (update_snr_history s d) = anomaly_counter s"
  "stabilization_start_time (update_snr_history s d) = stabilization_start_time s"
  by (simp_all add: update_snr_history_def)

lemma process_filtered:
  "filtered_sats (snd (process_gsv_for_snr s t line)) = filtered_sats (ingest s line)"
  by (simp add: process_gsv_for_snr_def Let_def update_snr_history_frame split: prod.splits)

lemma process_previous:
  "previous_avg_sats (snd (process_gsv_for_snr s t line)) = previous_avg_sats s
   \<or> previous_avg_sats (snd (process_gsv_for_snr s t line)) = filtered_sats (ingest s line)"
  by (simp add: process_gsv_for_snr_def Let_def update_snr_history_frame ingest_frame
        split: prod.splits)

lemma process_keeps_baseline_inside:
  assumes "dom (previous_avg_sats s) \<subseteq> dom (filtered_sats s)"
  shows "dom (previous_avg_sats (snd (process_gsv_for_snr s t line)))
           \<subseteq> dom (filtered_sats (snd (process_gsv_for_snr s t line)))"
proof -
  let ?s' = "snd (process_gsv_for_snr s t line)"
  have f: "filtered_sats ?s' = filtered_sats (ingest s line)" by (rule process_filtered)
  from process_previous [of s t line] show ?thesis
  proof
    assume "previous_avg_sats ?s' = previous_avg_sats s"
    with assms ingest_dom [of s line] f show ?thesis by (metis subset_trans)
  next
    assume "previous_avg_sats ?s' = filtered_sats (ingest s line)"
    with f show ?thesis by simp
  qed
qed

lemma run_keeps_baseline_inside:
  "dom (previous_avg_sats s) \<subseteq> dom (filtered_sats s)
     \<Longrightarrow> dom (previous_avg_sats (snr_run s calls)) \<subseteq> dom (filtered_sats (snr_run s calls))"
proof (induction calls arbitrary: s)
  case Nil
  then show ?case by simp
next
  case (Cons c calls)
  obtain t line where c: "c = (t, line)" by (cases c)
  from Cons.IH [OF process_keeps_baseline_inside [OF Cons.prems, of t line]] c
  show ?case by simp
qed

lemma reachable_baseline_inside:
  "dom (previous_avg_sats (snr_run (SNRDetector_init t0) calls))
     \<subseteq> dom (filtered_sats (snr_run (SNRDetector_init t0) calls))"
  by (rule run_keeps_baseline_inside) (simp add: SNRDetector_init_def)

lemma run_filtered_dom:
  "dom (filtered_sats s) \<subseteq> dom (filtered_sats (snr_run s calls))"
proof (induction calls arbitrary: s)
  case Nil
  then show ?case by simp
next
  case (Cons c calls)
  obtain t line where c: "c = (t, line)" by (cases c)
  have "dom (filtered_sats s) \<subseteq> dom (filtered_sats (snd (process_gsv_for_snr s t line)))"
    using ingest_dom by (simp add: process_filtered)
  with Cons.IH [of "snd (process_gsv_for_snr s t line)"] c show ?case by auto
qed

lemma no_lost_causes:
  assumes "dom prev \<subseteq> dom cur"
  shows "dom prev - dom cur = {}"
    and "snd (compare_sat_data prev cur) = False"
    and "InstantShock \<notin> set (fst (compare_sat_data prev cur))"
    and "DisappearedSatellites L \<notin> set (fst (compare_sat_data prev cur))"
proof -
  from assms show e: "dom prev - dom cur = {}" by blast
  show "snd (compare_sat_data prev cur) = False"
    unfolding compare_sat_data_def Let_def e by (simp add: snr_config)
  show "InstantShock \<notin> set (fst (compare_sat_data prev cur))"
    unfolding compare_sat_data_def Let_def e by (simp add: snr_config)
  show "DisappearedSatellites L \<notin> set (fst (compare_sat_data prev cur))"
    unfolding compare_sat_data_def Let_def e by (simp add: snr_config)
qed

lemma process_causes:
  "c \<in> set (fst (snd (fst (process_gsv_for_snr s t line))))
     \<Longrightarrow> c \<in> set (fst (compare_sat_data (previous_avg_sats s) (filtered_sats (ingest s line))))"
  by (auto simp: process_gsv_for_snr_def Let_def update_snr_history_frame ingest_frame
        split: prod.splits if_splits)

section \<open>Steps of the SNR detector\<close>

lemma process_warmup:
  "t - stabilization_start_time s < STABILIZATION_DURATION_snr
     \<Longrightarrow> process_gsv_for_snr s t line = ((SNR_STABILIZING, [], False), ingest s line)"
  by (simp add: process_gsv_for_snr_def Let_def ingest_frame)

lemma process_analysed:
  assumes "\<not> t - stabilization_start_time s < STABILIZATION_DURATION_snr"
      and "\<not> card (dom (filtered_sats (ingest s line))) < MIN_SAT_FOR_ANALYSIS"
      and "compare_sat_data (previous_avg_sats s) (filtered_sats (ingest s line))
             = (causes, spoof_now)"
  shows "fst (process_gsv_for_snr s t line)
           = (if previous_avg_sats s = Map.empty then (SNR_NORMAL, [], False)
              else if ANOMALY_CONFIRMATION_COUNT
                        \<le> (if causes \<noteq> [] then anomaly_counter s + 1 else 0) \<or> spoof_now
                   then (SPOOFING_DETECTED, causes, True)
                   else (SNR_NORMAL, [], False))"
    and "previous_avg_sats (snd (process_gsv_for_snr s t line)) = filtered_sats (ingest s line)"
    and "anomaly_counter (snd (process_gsv_for_snr s t line))
           = (if previous_avg_sats s = Map.empty then anomaly_counter s
              else if causes \<noteq> [] then anomaly_counter s + 1 else 0)"
    and "all_sats (snd (process_gsv_for_snr s t line)) = all_sats (ingest s line)"
    and "stabilization_start_time (snd (process_gsv_for_snr s t line))
           = stabilization_start_time s"
  using assms
  by (simp_all add: process_gsv_for_snr_def Let_def ingest_frame update_snr_history_frame)

lemma ingest_slots:
  "read_slots (take 4 slots) (all_sats s, filtered_sats s) = (a, f)
     \<Longrightarrow> all_sats (ingest s (GSV slots)) = a \<and> filtered_sats (ingest s (GSV slots)) = f"
  by (simp add: ingest_def)

lemma snr_run_snoc:
  "snr_run s (calls @ [(t, line)]) = snd (process_gsv_for_snr (snr_run s calls) t line)"
  by (induction calls arbitrary: s) auto

text \<open>The detector through sentences A, B and C, twenty seconds after the warm-up.\<close>

lemma after_A:
  "previous_avg_sats (snr_run (SNRDetector_init 0) [(100, sentence_A)]) = four
   \<and> filtered_sats (snr_run (SNRDetector_init 0) [(100, sentence_A)]) = four
   \<and> all_sats (snr_run (SNRDetector_init 0) [(100, sentence_A)]) = four
   \<and> anomaly_counter (snr_run (SNRDetector_init 0) [(100, sentence_A)]) = 0
   \<and> stabilization_start_time (snr_run (SNRDetector_init 0) [(100, sentence_A)]) = 0"
proof -
  let ?s = "SNRDetector_init 0"
  have "read_slots (take 4 [sat ''01'' 40, sat ''02'' 40, sat ''03'' 40, sat ''04'' 40])
          (all_sats ?s, filtered_sats ?s) = (four, four)"
    by (simp add: sat_def four_def SNRDetector_init_def snr_config)
  from ingest_slots [OF this]
  have i: "all_sats (ingest ?s sentence_A) = four" "filtered_sats (ingest ?s sentence_A) = four"
    by (simp_all add: sentence_A_def)
  have w: "\<not> 100 - stabilization_start_time ?s < STABILIZATION_DURATION_snr"
    by (simp add: SNRDetector_init_def snr_config)
  have c: "\<not> card (dom (filtered_sats (ingest ?s sentence_A))) < MIN_SAT_FOR_ANALYSIS"
    by (simp add: i four_def snr_config)
  obtain causes spoof_now where
    k: "compare_sat_data (previous_avg_sats ?s) (filtered_sats (ingest ?s sentence_A))
          = (causes, spoof_now)"
    by (metis prod.exhaust)
  have e: "previous_avg_sats ?s = Map.empty" "anomaly_counter ?s = 0"
    "stabilization_start_time ?s = 0"
    by (simp_all add: SNRDetector_init_def)
  from process_analysed(2-5) [OF w c k] i e show ?thesis by (simp add: process_filtered)
qed

lemma after_B:
  "previous_avg_sats (snr_run (SNRDetector_init 0) [(100, sentence_A), (101, sentence_B)]) = five
   \<and> filtered_sats (snr_run (SNRDetector_init 0) [(100, sentence_A), (101, sentence_B)]) = five
   \<and> all_sats (snr_run (SNRDetector_init 0) [(100, sentence_A), (101, sentence_B)]) = five
   \<and> anomaly_counter (snr_run (SNRDetector_init 0) [(100, sentence_A), (101, sentence_B)]) = 0
   \<and> stabilization_start_time
        (snr_run (SNRDetector_init 0) [(100, sentence_A), (101, sentence_B)]) = 0"
proof -
  let ?s = "snr_run (SNRDetector_init 0) [(100, sentence_A)]"
  note a = after_A
  have run: "snr_run (SNRDetector_init 0) [(100, sentence_A), (101, sentence_B)]
               = snd (process_gsv_for_snr ?s 101 sentence_B)"
    using snr_run_snoc [of "SNRDetector_init 0" "[(100, sentence_A)]" 101 sentence_B] by simp
  have "read_slots (take 4 [sat ''05'' 40]) (all_sats ?s, filtered_sats ?s) = (five, five)"
    by (simp add: a sat_def five_def snr_config del: snr_run.simps)
  from ingest_slots [OF this]
  have i: "all_sats (ingest ?s sentence_B) = five" "filtered_sats (ingest ?s sentence_B) = five"
    by (simp_all add: sentence_B_def)
  have w: "\<not> 101 - stabilization_start_time ?s < STABILIZATION_DURATION_snr"
    by (simp add: a snr_config del: snr_run.simps)
  have c: "\<not> card (dom (filtered_sats (ingest ?s sentence_B))) < MIN_SAT_FOR_ANALYSIS"
    by (simp add: i five_def four_def snr_config del: snr_run.simps)
  have k: "compare_sat_data (previous_avg_sats ?s) (filtered_sats (ingest ?s sentence_B))
          = ([], False)"
    by (simp add: a i compare_sat_data_def Let_def snr_config snr_jump_def five_def four_def
          insert_Diff_if del: snr_run.simps)
  have p: "previous_avg_sats ?s \<noteq> Map.empty"
    by (simp add: a four_def del: snr_run.simps)
  from process_analysed(2-5) [OF w c k] p i a show ?thesis
    by (simp add: run process_filtered del: snr_run.simps)
qed

lemma at_C:
  "fst (process_gsv_for_snr
          (snr_run (SNRDetector_init 0) [(100, sentence_A), (101, sentence_B)]) 102 sentence_C)
     = (SNR_NORMAL, [], False)
   \<and> filtered_sats (snd (process_gsv_for_snr
          (snr_run (SNRDetector_init 0) [(100, sentence_A), (101, sentence_B)]) 102 sentence_C))
     = nine
   \<and> anomaly_counter (snd (process_gsv_for_snr
          (snr_run (SNRDetector_init 0) [(100, sentence_A), (101, sentence_B)]) 102 sentence_C))
     = 1"
proof -
  let ?s = "snr_run (SNRDetector_init 0) [(100, sentence_A), (101, sentence_B)]"
  note b = after_B
  have "read_slots (take 4 [sat ''06'' 40, sat ''07'' 40, sat ''08'' 40, sat ''09'' 40])
          (all_sats ?s, filtered_sats ?s) = (nine, nine)"
    by (simp add: b sat_def nine_def snr_config del: snr_run.simps)
  from ingest_slots [OF this]
  have i: "all_sats (ingest ?s sentence_C) = nine" "filtered_sats (ingest ?s sentence_C) = nine"
    by (simp_all add: sentence_C_def)
  have w: "\<not> 102 - stabilization_start_time ?s < STABILIZATION_DURATION_snr"
    by (simp add: b snr_config del: snr_run.simps)
  have c: "\<not> card (dom (filtered_sats (ingest ?s sentence_C))) < MIN_SAT_FOR_ANALYSIS"
    by (simp add: i nine_def five_def four_def snr_config del: snr_run.simps)
  have k: "compare_sat_data (previous_avg_sats ?s) (filtered_sats (ingest ?s sentence_C))
          = ([NewSatellites {''09'', ''08'', ''07'', ''06''}], False)"
    by (simp add: b i compare_sat_data_def Let_def snr_config snr_jump_def nine_def five_def
          four_def insert_Diff_if del: snr_run.simps)
  have p: "previous_avg_sats ?s \<noteq> Map.empty"
    by (simp add: b five_def four_def del: snr_run.simps)
  from process_analysed(1,3) [OF w c k] p b i show ?thesis
    by (simp add: process_filtered snr_config del: snr_run.simps)
qed

lemma after_C:
  "previous_avg_sats (snr_run (SNRDetector_init 0)
       [(100, sentence_A), (101, sentence_B), (102, sentence_C)]) = nine
   \<and> filtered_sats (snr_run (SNRDetector_init 0)
       [(100, sentence_A), (101, sentence_B), (102, sentence_C)]) = nine
   \<and> all_sats (snr_run (SNRDetector_init 0)
       [(100, sentence_A), (101, sentence_B), (102, sentence_C)]) = nine
   \<and> anomaly_counter (snr_run (SNRDetector_init 0)
       [(100, sentence_A), (101, sentence_B), (102, sentence_C)]) = 1
   \<and> stabilization_start_time (snr_run (SNRDetector_init 0)
       [(100, sentence_A), (101, sentence_B), (102, sentence_C)]) = 0"
proof -
  let ?s = "snr_run (SNRDetector_init 0) [(100, sentence_A), (101, sentence_B)]"
  note b = after_B
  have run: "snr_run (SNRDetector_init 0) [(100, sentence_A), (101, sentence_B), (102, sentence_C)]
               = snd (process_gsv_for_snr ?s 102 sentence_C)"
    using snr_run_snoc [of "SNRDetector_init 0" "[(100, sentence_A), (101, sentence_B)]"
        102 sentence_C]
    by simp
  have "read_slots (take 4 [sat ''06'' 40, sat ''07'' 40, sat ''08'' 40, sat ''09'' 40])
          (all_sats ?s, filtered_sats ?s) = (nine, nine)"
    by (simp add: b sat_def nine_def snr_config del: snr_run.simps)
  from ingest_slots [OF this]
  have i: "all_sats (ingest ?s sentence_C) = nine" "filtered_sats (ingest ?s sentence_C) = nine"
    by (simp_all add: sentence_C_def)
  have w: "\<not> 102 - stabilization_start_time ?s < STABILIZATION_DURATION_snr"
    by (simp add: b snr_config del: snr_run.simps)
  have c: "\<not> card (dom (filtered_sats (ingest ?s sentence_C))) < MIN_SAT_FOR_ANALYSIS"
    by (simp add: i nine_def five_def four_def snr_config del: snr_run.simps)
  have k: "compare_sat_data (previous_avg_sats ?s) (filtered_sats (ingest ?s sentence_C))
          = ([NewSatellites {''09'', ''08'', ''07'', ''06''}], False)"
    by (simp add: b i compare_sat_data_def Let_def snr_config snr_jump_def nine_def five_def
          four_def insert_Diff_if del: snr_run.simps)
  have p: "previous_avg_sats ?s \<noteq> Map.empty"
    by (simp add: b five_def four_def del: snr_run.simps)
  from process_analysed(2-5) [OF w c k] p i b show ?thesis
    by (simp add: run process_filtered del: snr_run.simps)
qed

lemma at_D:
  "fst (process_gsv_for_snr
          (snr_run (SNRDetector_init 0)
             [(100, sentence_A), (101, sentence_B), (102, sentence_C)]) 103 sentence_D)
     = (SNR_NORMAL, [], False)
   \<and> filtered_sats (snd (process_gsv_for_snr
          (snr_run (SNRDetector_init 0)
             [(100, sentence_A), (101, sentence_B), (102, sentence_C)]) 103 sentence_D))
     = ten"
proof -
  let ?s = "snr_run (SNRDetector_init 0)
              [(100, sentence_A), (101, sentence_B), (102, sentence_C)]"
  note b = after_C
  have "read_slots (take 4 [sat ''10'' 40]) (all_sats ?s, filtered_sats ?s) = (ten, ten)"
    by (simp add: b sat_def ten_def snr_config del: snr_run.simps)
  from ingest_slots [OF this]
  have i: "all_sats (ingest ?s sentence_D) = ten" "filtered_sats (ingest ?s sentence_D) = ten"
    by (simp_all add: sentence_D_def)
  have w: "\<not> 103 - stabilization_start_time ?s < STABILIZATION_DURATION_snr"
    by (simp add: b snr_config del: snr_run.simps)
  have c: "\<not> card (dom (filtered_sats (ingest ?s sentence_D))) < MIN_SAT_FOR_ANALYSIS"
    by (simp add: i ten_def nine_def five_def four_def snr_config del: snr_run.simps)
  have k: "compare_sat_data (previous_avg_sats ?s) (filtered_sats (ingest ?s sentence_D))
          = ([], False)"
    by (simp add: b i compare_sat_data_def Let_def snr_config snr_jump_def ten_def nine_def
          five_def four_def insert_Diff_if del: snr_run.simps)
  have p: "previous_avg_sats ?s \<noteq> Map.empty"
    by (simp add: b nine_def five_def four_def del: snr_run.simps)
  from process_analysed(1) [OF w c k] p b i show ?thesis
    by (simp add: process_filtered snr_config del: snr_run.simps)
qed

lemma process_all_sats:
  "all_sats (snd (process_gsv_for_snr s t line)) = all_sats (ingest s line)"
  by (simp add: process_gsv_for_snr_def Let_def update_snr_history_frame split: prod.splits)

lemma flagged_cases:
  "snd (snd (fst (process_gsv_for_snr s t line)))
     \<Longrightarrow> ANOMALY_CONFIRMATION_COUNT \<le> anomaly_counter (snd (process_gsv_for_snr s t line))
         \<or> snd (compare_sat_data (previous_avg_sats s) (filtered_sats (ingest s line)))"
  by (auto simp: process_gsv_for_snr_def Let_def update_snr_history_frame ingest_frame
        split: prod.splits if_splits)

lemma reachable_no_lost:
  "dom (previous_avg_sats (snr_run (SNRDetector_init t0) calls))
     \<subseteq> dom (filtered_sats (ingest (snr_run (SNRDetector_init t0) calls) line))"
  using reachable_baseline_inside [of t0 calls]
        ingest_dom [of "snr_run (SNRDetector_init t0) calls" line]
  by (rule subset_trans)

section \<open>Warm-up of the SNR detector\<close>

text \<open>
  C2, as the spec states it, fails in its last part. Ten seconds into the warm-up, a
  sentence reporting PRN 01 at 40 dB-Hz is answered STABILIZING and the reading is in
  the satellite maps, but the SNR history of PRN 01 is still absent: no sample was
  appended to any window.
\<close>

theorem C2_counterexample:
  "fst (process_gsv_for_snr (SNRDetector_init 0) 10 (GSV [sat ''01'' 40]))
     = (SNR_STABILIZING, [], False)
   \<and> all_sats (snd (process_gsv_for_snr (SNRDetector_init 0) 10 (GSV [sat ''01'' 40]))) ''01''
     = Some 40
   \<and> snr_history (snd (process_gsv_for_snr (SNRDetector_init 0) 10 (GSV [sat ''01'' 40]))) ''01''
     = None
   \<and> snr_history (snd (process_gsv_for_snr (SNRDetector_init 0) 10 (GSV [sat ''01'' 40]))) ''01''
     \<noteq> Some [40]"
  by (simp add: process_gsv_for_snr_def ingest_def SNRDetector_init_def sat_def snr_config)

text \<open>
  C2, amended. A call made while the time elapsed since the warm-up start is below the
  warm-up duration is answered STABILIZING and leaves the previous filtered state, the
  anomaly counter and the SNR history windows as they were; the sentence's readings go
  into the maps of all and of filtered satellites only.
\<close>

theorem C2_warmup_frame:
  assumes "t - stabilization_start_time s < STABILIZATION_DURATION_snr"
  shows "fst (process_gsv_for_snr s t line) = (SNR_STABILIZING, [], False)
     \<and> previous_avg_sats (snd (process_gsv_for_snr s t line)) = previous_avg_sats s
     \<and> anomaly_counter (snd (process_gsv_for_snr s t line)) = anomaly_counter s
     \<and> snr_history (snd (process_gsv_for_snr s t line)) = snr_history s
     \<and> all_sats (snd (process_gsv_for_snr s t line)) = all_sats (ingest s line)
     \<and> filtered_sats (snd (process_gsv_for_snr s t line)) = filtered_sats (ingest s line)"
  using process_warmup [OF assms, of line] by (simp add: ingest_frame)

theorem C2_warmup_frame_witness:
  "10 - stabilization_start_time (SNRDetector_init 0) < STABILIZATION_DURATION_snr
   \<and> fst (process_gsv_for_snr (SNRDetector_init 0) 10 (GSV [sat ''01'' 40]))
       = (SNR_STABILIZING, [], False)
   \<and> previous_avg_sats (snd (process_gsv_for_snr (SNRDetector_init 0) 10 (GSV [sat ''01'' 40])))
       = Map.empty
   \<and> snr_history (snd (process_gsv_for_snr (SNRDetector_init 0) 10 (GSV [sat ''01'' 40])))
       = Map.empty
   \<and> filtered_sats (snd (process_gsv_for_snr (SNRDetector_init 0) 10 (GSV [sat ''01'' 40])))
       = [''01'' \<mapsto> 40]"
proof -
  have w: "10 - stabilization_start_time (SNRDetector_init 0) < STABILIZATION_DURATION_snr"
    by (simp add: SNRDetector_init_def snr_config)
  have i: "filtered_sats (ingest (SNRDetector_init 0) (GSV [sat ''01'' 40])) = [''01'' \<mapsto> 40]"
    by (simp add: ingest_def SNRDetector_init_def sat_def snr_config)
  have e: "previous_avg_sats (SNRDetector_init 0) = Map.empty"
          "snr_history (SNRDetector_init 0) = Map.empty"
    by (simp_all add: SNRDetector_init_def)
  from C2_warmup_frame [OF w, of "GSV [sat ''01'' 40]"] w i e show ?thesis by simp
qed

section \<open>The filtered set is never pruned\<close>

text \<open>
  C9. The keys of the filtered satellite map only grow, over one call and over any
  sequence of calls; a PRN that the sentence reports only below the reliability floor
  keeps the entry it had; and in every state reached from the constructor the lost set
  (previous filtered keys minus current filtered keys) of the comparison is empty and no
  call emits the disappeared-satellites cause.
\<close>

theorem C9_filtered_keys_only_grow:
  "dom (filtered_sats s) \<subseteq> dom (filtered_sats (snd (process_gsv_for_snr s t line)))
   \<and> dom (filtered_sats s) \<subseteq> dom (filtered_sats (snr_run s calls))
   \<and> ((\<forall>sl \<in> set slots. sv_prn_num sl = Some p
          \<longrightarrow> (\<forall>v. snr sl = SnrNumber v \<longrightarrow> v < SNR_MIN_THRESHOLD))
        \<longrightarrow> filtered_sats (snd (process_gsv_for_snr s t (GSV slots))) p = filtered_sats s p)
   \<and> dom (previous_avg_sats (ingest (snr_run (SNRDetector_init t0) calls') line'))
       - dom (filtered_sats (ingest (snr_run (SNRDetector_init t0) calls') line')) = {}
   \<and> (\<forall>L. DisappearedSatellites L
          \<notin> set (fst (snd (fst (process_gsv_for_snr
                                   (snr_run (SNRDetector_init t0) calls') t' line')))))"
proof (intro conjI impI allI)
  show "dom (filtered_sats s) \<subseteq> dom (filtered_sats (snd (process_gsv_for_snr s t line)))"
    using ingest_dom by (simp add: process_filtered)
  show "dom (filtered_sats s) \<subseteq> dom (filtered_sats (snr_run s calls))"
    by (rule run_filtered_dom)
  let ?r = "snr_run (SNRDetector_init t0) calls'"
  have sub: "dom (previous_avg_sats ?r) \<subseteq> dom (filtered_sats (ingest ?r line'))"
    by (rule reachable_no_lost)
  then show "dom (previous_avg_sats (ingest ?r line')) - dom (filtered_sats (ingest ?r line')) = {}"
    by (simp add: ingest_frame)
  fix L
  show "DisappearedSatellites L \<notin> set (fst (snd (fst (process_gsv_for_snr ?r t' line'))))"
    using process_causes [of "DisappearedSatellites L" ?r t' line'] no_lost_causes(4) [OF sub]
    by blast
next
  assume "\<forall>sl \<in> set slots. sv_prn_num sl = Some p
            \<longrightarrow> (\<forall>v. snr sl = SnrNumber v \<longrightarrow> v < SNR_MIN_THRESHOLD)"
  then show "filtered_sats (snd (process_gsv_for_snr s t (GSV slots))) p = filtered_sats s p"
    by (simp add: process_filtered ingest_below_floor)
qed

text \<open>
  After sentence A (PRNs 01 to 04 at 40), a sentence that reports PRN 01 at 10, below
  the floor of 23: PRN 01 keeps its entry 40.
\<close>

theorem C9_filtered_keys_only_grow_witness:
  "dom four \<subseteq> dom (filtered_sats (snd (process_gsv_for_snr
        (snr_run (SNRDetector_init 0) [(100, sentence_A)]) 101 (GSV [sat ''01'' 10]))))
   \<and> dom four \<subseteq> dom (filtered_sats (snr_run
        (snr_run (SNRDetector_init 0) [(100, sentence_A)]) [(101, GSV [sat ''01'' 10])]))
   \<and> filtered_sats (snd (process_gsv_for_snr
        (snr_run (SNRDetector_init 0) [(100, sentence_A)]) 101 (GSV [sat ''01'' 10]))) ''01''
       = Some 40
   \<and> dom (previous_avg_sats (ingest (snr_run (SNRDetector_init 0) [(100, sentence_A)])
             (GSV [sat ''01'' 10])))
       - dom (filtered_sats (ingest (snr_run (SNRDetector_init 0) [(100, sentence_A)])
             (GSV [sat ''01'' 10]))) = {}
   \<and> DisappearedSatellites {''01''}
       \<notin> set (fst (snd (fst (process_gsv_for_snr
             (snr_run (SNRDetector_init 0) [(100, sentence_A)]) 101 (GSV [sat ''01'' 10])))))"
proof -
  let ?s = "snr_run (SNRDetector_init 0) [(100, sentence_A)]"
  have h: "\<forall>sl \<in> set [sat ''01'' 10]. sv_prn_num sl = Some ''01''
             \<longrightarrow> (\<forall>v. snr sl = SnrNumber v \<longrightarrow> v < SNR_MIN_THRESHOLD)"
    by (simp add: sat_def snr_config)
  have f: "filtered_sats ?s = four" using after_A by blast
  have v: "four ''01'' = Some 40" by (simp add: four_def)
  from C9_filtered_keys_only_grow
    [where s = ?s and t = 101 and line = "GSV [sat ''01'' 10]"
       and calls = "[(101, GSV [sat ''01'' 10])]" and slots = "[sat ''01'' 10]"
       and p = "''01''" and ?t0.0 = 0 and calls' = "[(100, sentence_A)]"
       and line' = "GSV [sat ''01'' 10]" and t' = 101]
    h f v
  show ?thesis by (simp del: snr_run.simps)
qed

text \<open>
  C3, evaluated on the code. After sentence A (PRNs 01 to 04 at 40 dB-Hz), a sentence
  reporting PRN 01 at 10 dB-Hz leaves PRN 01 in the filtered set with the value 40,
  although its latest SNR is 10, below the floor of 23. And after sentences A and B
  (PRNs 01 to 05) followed by C and D, which report PRNs 06 to 10 only, the filtered set
  is all ten PRNs: PRN 01, absent from what was last reported, is still in it.
\<close>

theorem C3_filtered_set_keeps_stale_entries:
  "all_sats (snd (process_gsv_for_snr
        (snr_run (SNRDetector_init 0) [(100, sentence_A)]) 101 (GSV [sat ''01'' 10]))) ''01''
     = Some 10
   \<and> filtered_sats (snd (process_gsv_for_snr
        (snr_run (SNRDetector_init 0) [(100, sentence_A)]) 101 (GSV [sat ''01'' 10]))) ''01''
     = Some 40
   \<and> filtered_sats (snd (process_gsv_for_snr
          (snr_run (SNRDetector_init 0)
             [(100, sentence_A), (101, sentence_B), (102, sentence_C)]) 103 sentence_D))
     = ten
   \<and> ten ''01'' = Some 40"
proof -
  let ?s = "snr_run (SNRDetector_init 0) [(100, sentence_A)]"
  have "read_slots (take 4 [sat ''01'' 10]) (all_sats ?s, filtered_sats ?s)
          = (four(''01'' \<mapsto> 10), four)"
    by (simp add: after_A sat_def snr_config del: snr_run.simps)
  from ingest_slots [OF this]
  have "all_sats (ingest ?s (GSV [sat ''01'' 10])) ''01'' = Some 10"
       "filtered_sats (ingest ?s (GSV [sat ''01'' 10])) ''01'' = Some 40"
    by (simp_all add: four_def)
  moreover have "ten ''01'' = Some 40"
    by (simp add: ten_def nine_def five_def four_def)
  ultimately show ?thesis
    using at_D by (simp add: process_filtered process_all_sats del: snr_run.simps)
qed

section \<open>The instant shock\<close>

text \<open>
  C4, evaluated on the code. In every state reached from the constructor, for every
  call: the comparison computes no instant shock, the instant-shock cause is not among
  the causes returned, and a call that flags spoofing has an anomaly counter of at least
  the confirmation count, so a flagged verdict always rests on the streak.
\<close>

theorem C4_instant_shock_unreachable:
  "snd (compare_sat_data
          (previous_avg_sats (ingest (snr_run (SNRDetector_init t0) calls) line))
          (filtered_sats (ingest (snr_run (SNRDetector_init t0) calls) line))) = False
   \<and> InstantShock
       \<notin> set (fst (snd (fst (process_gsv_for_snr (snr_run (SNRDetector_init t0) calls) t line))))
   \<and> (snd (snd (fst (process_gsv_for_snr (snr_run (SNRDetector_init t0) calls) t line)))
        \<longrightarrow> ANOMALY_CONFIRMATION_COUNT
             \<le> anomaly_counter
                 (snd (process_gsv_for_snr (snr_run (SNRDetector_init t0) calls) t line)))"
proof (intro conjI impI)
  let ?r = "snr_run (SNRDetector_init t0) calls"
  have sub: "dom (previous_avg_sats ?r) \<subseteq> dom (filtered_sats (ingest ?r line))"
    by (rule reachable_no_lost)
  from no_lost_causes(2) [OF sub]
  show "snd (compare_sat_data (previous_avg_sats (ingest ?r line))
          (filtered_sats (ingest ?r line))) = False"
    by (simp add: ingest_frame)
  show "InstantShock \<notin> set (fst (snd (fst (process_gsv_for_snr ?r t line))))"
    using process_causes [of InstantShock ?r t line] no_lost_causes(3) [OF sub] by blast
  assume "snd (snd (fst (process_gsv_for_snr ?r t line)))"
  from flagged_cases [OF this] no_lost_causes(2) [OF sub]
  show "ANOMALY_CONFIRMATION_COUNT \<le> anomaly_counter (snd (process_gsv_for_snr ?r t line))"
    by simp
qed

text \<open>
  The replaced constellation: after PRNs 01 to 05, sentences C and D report PRNs 06 to 10
  only. Both are answered NORMAL, and PRNs 01 to 05 are never counted as lost.
\<close>

theorem C4_instant_shock_unreachable_witness:
  "snd (compare_sat_data
          (previous_avg_sats (ingest (snr_run (SNRDetector_init 0)
             [(100, sentence_A), (101, sentence_B)]) sentence_C))
          (filtered_sats (ingest (snr_run (SNRDetector_init 0)
             [(100, sentence_A), (101, sentence_B)]) sentence_C))) = False
   \<and> InstantShock
       \<notin> set (fst (snd (fst (process_gsv_for_snr (snr_run (SNRDetector_init 0)
             [(100, sentence_A), (101, sentence_B)]) 102 sentence_C))))
   \<and> fst (process_gsv_for_snr
          (snr_run (SNRDetector_init 0) [(100, sentence_A), (101, sentence_B)]) 102 sentence_C)
       = (SNR_NORMAL, [], False)
   \<and> fst (process_gsv_for_snr
          (snr_run (SNRDetector_init 0)
             [(100, sentence_A), (101, sentence_B), (102, sentence_C)]) 103 sentence_D)
       = (SNR_NORMAL, [], False)"
  using C4_instant_shock_unreachable
    [where ?t0.0 = 0 and calls = "[(100, sentence_A), (101, sentence_B)]"
       and line = sentence_C and t = 102]
    at_C at_D
  by (simp del: snr_run.simps)

section \<open>The mode flag\<close>

lemma arbitrate_fields:
  "snr_detector (fst (arbitrate c spoof t raises)) = snr_detector c"
  "speed_detector (fst (arbitrate c spoof t raises)) = speed_detector c"
  "start_time (fst (arbitrate c spoof t raises)) = start_time c"
  by (simp_all add: arbitrate_def)

lemma arbitrate_mono:
  "autonomous_mode c \<Longrightarrow> autonomous_mode (fst (arbitrate c spoof t raises))"
  by (simp add: arbitrate_def)

lemma arbitrate_switch_returns:
  "\<not> autonomous_mode c \<Longrightarrow> autonomous_mode (fst (arbitrate c spoof t raises))
     \<Longrightarrow> snd (arbitrate c spoof t raises)"
  by (simp add: arbitrate_def split: if_splits)

lemma arbitrate_grace:
  "t - start_time c \<le> STABILIZATION_DURATION_main
     \<Longrightarrow> arbitrate c spoof t raises = (c, False)"
  by (simp add: arbitrate_def)

lemma gps_step_mono:
  "autonomous_mode c \<Longrightarrow> autonomous_mode (fst (gps_step geodesic c ev))"
  by (auto simp: gps_step_def arbitrate_def split: event.splits sentence.splits prod.splits)

lemma gps_step_switch_returns:
  "\<not> autonomous_mode c \<Longrightarrow> autonomous_mode (fst (gps_step geodesic c ev))
     \<Longrightarrow> snd (gps_step geodesic c ev)"
  by (auto simp: gps_step_def arbitrate_def
        split: event.splits sentence.splits prod.splits if_splits)

lemma gps_reader_modes:
  "\<not> autonomous_mode c
     \<Longrightarrow> sorted (map autonomous_mode (gps_reader geodesic c evs))
         \<and> length (filter autonomous_mode (gps_reader geodesic c evs)) \<le> 1"
proof (induction evs arbitrary: c)
  case Nil
  then show ?case by simp
next
  case (Cons ev evs)
  obtain c' returned where s: "gps_step geodesic c ev = (c', returned)" by (metis prod.exhaust)
  show ?case
  proof (cases returned)
    case True
    with s show ?thesis by simp
  next
    case False
    with s Cons.prems gps_step_switch_returns [of c geodesic ev] have "\<not> autonomous_mode c'"
      by auto
    from Cons.IH [OF this] this s False show ?thesis by simp
  qed
qed

lemma gps_step_grace:
  assumes "arbiter_clock r - start_time c \<le> STABILIZATION_DURATION_main"
  shows "autonomous_mode (fst (gps_step geodesic c (Received r))) = autonomous_mode c"
    and "\<not> snd (gps_step geodesic c (Received r))"
  using assms
  by (auto simp: gps_step_def arbitrate_def split: sentence.splits prod.splits)

text \<open>
  C5. The flag starts as tracking (\<open>False\<close>). No iteration of the loop takes it from
  fallback back to tracking; an iteration that takes it from tracking to fallback is the
  one on which the loop returns; so along the iterations of any run the flag never
  decreases and is fallback after at most one of them, the last.
\<close>

theorem C5_mode_monotonic:
  "\<not> autonomous_mode (controller_init t_snr t_start)
   \<and> (autonomous_mode c \<longrightarrow> autonomous_mode (fst (gps_step geodesic c ev)))
   \<and> (\<not> autonomous_mode c' \<and> autonomous_mode (fst (gps_step geodesic c' ev'))
        \<longrightarrow> snd (gps_step geodesic c' ev'))
   \<and> sorted (map autonomous_mode (gps_reader geodesic (controller_init t_snr t_start) evs))
   \<and> length (filter autonomous_mode (gps_reader geodesic (controller_init t_snr t_start) evs))
       \<le> 1"
proof -
  have i: "\<not> autonomous_mode (controller_init t_snr t_start)"
    by (simp add: controller_init_def)
  from i gps_reader_modes [OF i, of geodesic evs] gps_step_mono [of c geodesic ev]
       gps_step_switch_returns [of c' geodesic ev']
  show ?thesis by blast
qed

lemma last_step:
  "gps_step line_distance (controller_init 0 0\<lparr>speed_detector := almost_confirmed\<rparr>)
       (Received (last_reading t))
     = arbitrate (controller_init 0 0\<lparr>speed_detector := confirmed_state\<rparr>) True t False"
  by (simp add: gps_step_def last_reading_def fix_at_def line_distance_def
        almost_confirmed_def confirmed_state_def controller_init_def
        process_def current_time_and_dt_def update_refs_def
        phases_def speed_of_def py_truediv_def speed_config)

lemma jump_events_modes:
  "map autonomous_mode (gps_reader line_distance (controller_init 0 0) (jump_events 50))
     = [False, False, False, False, False, False, False, False, False, True]"
  by (simp add: jump_events_def jump_and_hold_def fix_at_def line_distance_def
        gps_step_def arbitrate_def controller_init_def STABILIZATION_DURATION_main_def
        process_def SpeedDetector_init_def current_time_and_dt_def update_refs_def
        phases_def speed_of_def py_truediv_def speed_config)

text \<open>
  The jump-and-hold run handled fifty seconds after the start: nine iterations in
  tracking, then the confirmation switches the flag and the loop returns.
\<close>

theorem C5_mode_monotonic_witness:
  "\<not> autonomous_mode (controller_init 0 0)
   \<and> autonomous_mode (controller_init 0 0\<lparr>autonomous_mode := True\<rparr>)
   \<and> autonomous_mode (fst (gps_step line_distance
         (controller_init 0 0\<lparr>autonomous_mode := True\<rparr>) (Received (last_reading 50))))
   \<and> \<not> autonomous_mode (controller_init 0 0\<lparr>speed_detector := almost_confirmed\<rparr>)
   \<and> autonomous_mode (fst (gps_step line_distance
         (controller_init 0 0\<lparr>speed_detector := almost_confirmed\<rparr>) (Received (last_reading 50))))
   \<and> snd (gps_step line_distance
         (controller_init 0 0\<lparr>speed_detector := almost_confirmed\<rparr>) (Received (last_reading 50)))
   \<and> map autonomous_mode (gps_reader line_distance (controller_init 0 0) (jump_events 50))
       = [False, False, False, False, False, False, False, False, False, True]
   \<and> sorted (map autonomous_mode (gps_reader line_distance (controller_init 0 0) (jump_events 50)))
   \<and> length (filter autonomous_mode
         (gps_reader line_distance (controller_init 0 0) (jump_events 50))) \<le> 1"
proof -
  have a: "autonomous_mode (controller_init 0 0\<lparr>autonomous_mode := True\<rparr>)" by simp
  have b: "\<not> autonomous_mode (controller_init 0 0\<lparr>speed_detector := almost_confirmed\<rparr>)"
    by (simp add: controller_init_def)
  have s: "autonomous_mode (fst (gps_step line_distance
         (controller_init 0 0\<lparr>speed_detector := almost_confirmed\<rparr>) (Received (last_reading 50))))"
    unfolding last_step
    by (simp add: arbitrate_def controller_init_def STABILIZATION_DURATION_main_def)
  from C5_mode_monotonic
    [where t_snr = 0 and t_start = 0 and geodesic = line_distance
       and c = "controller_init 0 0\<lparr>autonomous_mode := True\<rparr>"
       and ev = "Received (last_reading 50)"
       and c' = "controller_init 0 0\<lparr>speed_detector := almost_confirmed\<rparr>"
       and ev' = "Received (last_reading 50)" and evs = "jump_events 50"]
    a b s jump_events_modes
  show ?thesis by simp
qed

section \<open>The startup grace period\<close>

text \<open>
  C6. When a line is handled while the time elapsed since the start has not exceeded
  the grace period, the iteration leaves the mode flag as it was and the loop does not
  return, whatever the detector answered; in particular a confirmed verdict (speed
  SPOOFING CONFIRMED or SNR SPOOFING DETECTED) switches nothing.
\<close>

theorem C6_grace_period_blocks_switch:
  assumes "arbiter_clock r - start_time c \<le> STABILIZATION_DURATION_main"
  shows "autonomous_mode (fst (gps_step geodesic c (Received r))) = autonomous_mode c
     \<and> \<not> snd (gps_step geodesic c (Received r))"
  using gps_step_grace [OF assms] by simp

text \<open>
  Twenty seconds after the start the speed detector confirms the spoofing; the flag
  stays at tracking and the loop goes on.
\<close>

theorem C6_grace_period_blocks_switch_witness:
  "arbiter_clock (last_reading 20)
       - start_time (controller_init 0 0\<lparr>speed_detector := almost_confirmed\<rparr>)
     \<le> STABILIZATION_DURATION_main
   \<and> fst (process line_distance almost_confirmed (fst (fix_at 100 23)) (snd (fix_at 100 23)))
       = (SPOOFING_CONFIRMED, Some (100 / 23), True)
   \<and> \<not> autonomous_mode (fst (gps_step line_distance
         (controller_init 0 0\<lparr>speed_detector := almost_confirmed\<rparr>) (Received (last_reading 20))))
   \<and> \<not> snd (gps_step line_distance
         (controller_init 0 0\<lparr>speed_detector := almost_confirmed\<rparr>) (Received (last_reading 20)))"
proof -
  have g: "arbiter_clock (last_reading 20)
       - start_time (controller_init 0 0\<lparr>speed_detector := almost_confirmed\<rparr>)
     \<le> STABILIZATION_DURATION_main"
    by (simp add: last_reading_def controller_init_def STABILIZATION_DURATION_main_def)
  have p: "fst (process line_distance almost_confirmed (fst (fix_at 100 23)) (snd (fix_at 100 23)))
       = (SPOOFING_CONFIRMED, Some (100 / 23), True)"
    by (simp add: fix_at_def line_distance_def almost_confirmed_def confirmed_state_def
        process_def current_time_and_dt_def update_refs_def
        phases_def speed_of_def py_truediv_def speed_config)
  have m: "\<not> autonomous_mode (controller_init 0 0\<lparr>speed_detector := almost_confirmed\<rparr>)"
    by (simp add: controller_init_def)
  from C6_grace_period_blocks_switch [OF g, of line_distance] g p m show ?thesis by simp
qed

end
